theory Spec2Isabelle
  imports Main "HOL-Library.AList"
begin

section \<open>The feature-type registry\<close>

text \<open>
  The enumeration \<open>FeatureType\<close> is imported by \<open>eodata.py\<close> from the module
  \<open>feature_types\<close>. Its members are the keyword arguments of \<open>EOPatch.__init__\<close>,
  in the order of the assignments there.
\<close>

datatype FeatureType =
    DATA | MASK | SCALAR | LABEL | VECTOR
  | DATA_TIMELESS | MASK_TIMELESS | SCALAR_TIMELESS | LABEL_TIMELESS | VECTOR_TIMELESS
  | META_INFO | BBOX | TIMESTAMP

text \<open>Iterating \<open>for feature_type in FeatureType\<close> visits the members in this order.\<close>

definition feature_types :: "FeatureType list" where
  "feature_types =
     [DATA, MASK, SCALAR, LABEL, VECTOR,
      DATA_TIMELESS, MASK_TIMELESS, SCALAR_TIMELESS, LABEL_TIMELESS, VECTOR_TIMELESS,
      META_INFO, BBOX, TIMESTAMP]"

text \<open>\<open>feature_type.value\<close>: the attribute name of the namespace.\<close>

fun ft_value :: "FeatureType \<Rightarrow> string" where
  "ft_value DATA = ''data''"
| "ft_value MASK = ''mask''"
| "ft_value SCALAR = ''scalar''"
| "ft_value LABEL = ''label''"
| "ft_value VECTOR = ''vector''"
| "ft_value DATA_TIMELESS = ''data_timeless''"
| "ft_value MASK_TIMELESS = ''mask_timeless''"
| "ft_value SCALAR_TIMELESS = ''scalar_timeless''"
| "ft_value LABEL_TIMELESS = ''label_timeless''"
| "ft_value VECTOR_TIMELESS = ''vector_timeless''"
| "ft_value META_INFO = ''meta_info''"
| "ft_value BBOX = ''bbox''"
| "ft_value TIMESTAMP = ''timestamp''"

text \<open>\<open>FeatureType(key)\<close> for a string key; \<open>None\<close> where Python raises.\<close>

definition FeatureType_of :: "string \<Rightarrow> FeatureType option" where
  "FeatureType_of key = find (\<lambda>ft. ft_value ft = key) feature_types"

definition has_value :: "string \<Rightarrow> bool" where
  "has_value key = (\<exists>ft \<in> set feature_types. ft_value ft = key)"

text \<open>
  Modelled from the spec: the methods of \<open>FeatureType\<close> (module \<open>feature_types\<close>, not
  among the sources). The spec names per-time raster data and masks of rank 4, per-time
  scalars and labels of rank 2, per-time vector collections without a fixed rank, the
  timeless counterparts with the rank reduced by one, metadata, and the two singletons
  bounding box and timestamp.
\<close>

fun has_dict :: "FeatureType \<Rightarrow> bool" where
  "has_dict BBOX = False"
| "has_dict TIMESTAMP = False"
| "has_dict _ = True"

text \<open>
  Modelled from the spec: the time-dependent namespaces are the five per-time ones.
  \<open>consolidate_timestamps\<close> calls \<open>.items()\<close> on the value of every time-dependent
  namespace, so the timestamp list is not taken to be one of them.
\<close>

fun is_time_dependent :: "FeatureType \<Rightarrow> bool" where
  "is_time_dependent DATA = True"
| "is_time_dependent MASK = True"
| "is_time_dependent SCALAR = True"
| "is_time_dependent LABEL = True"
| "is_time_dependent VECTOR = True"
| "is_time_dependent _ = False"

text \<open>Modelled from the spec: the expected rank, \<open>None\<close> where no rank is fixed.\<close>

fun ndim :: "FeatureType \<Rightarrow> nat option" where
  "ndim DATA = Some 4"
| "ndim MASK = Some 4"
| "ndim SCALAR = Some 2"
| "ndim LABEL = Some 2"
| "ndim DATA_TIMELESS = Some 3"
| "ndim MASK_TIMELESS = Some 3"
| "ndim SCALAR_TIMELESS = Some 1"
| "ndim LABEL_TIMELESS = Some 1"
| "ndim _ = None"


datatype pytype = TDict | TList | TObject

text \<open>
  Modelled from the spec: \<open>feature_type.type()\<close>, the container kind. A mapping for the
  mapping-kind namespaces, a list for the timestamp, and any object for the bounding box:
  \<open>EOPatch.__init__\<close> assigns its \<open>bbox\<close> argument, whose default is \<open>None\<close>, through
  \<open>__setattr__\<close>.
\<close>

fun ftype_type :: "FeatureType \<Rightarrow> pytype" where
  "ftype_type TIMESTAMP = TList"
| "ftype_type BBOX = TObject"
| "ftype_type _ = TDict"

section \<open>Python values\<close>

text \<open>
  The element types of the arrays of the model: numpy's \<open>int64\<close>, \<open>uint64\<close> and
  \<open>float64\<close>. An element is an integer; an array of floats is modelled for the floats with
  an integral value.
\<close>

datatype dtype = Int64 | UInt64 | Float64

text \<open>
  A numpy array is its element type, its shape and its data buffer. The buffer is a type
  parameter: the row-major element list where arrays are compared and sliced, an address
  into a store where the sharing of buffers matters.
\<close>

datatype 'b ndarray = NDArray (dtype: dtype) (shape: "nat list") (buf: 'b)

text \<open>
  The values a namespace attribute or a feature can hold. A dictionary keeps its items in
  insertion order, with distinct keys; \<open>PFeatureDict\<close> is an instance of the subclass
  \<open>_FeatureDict\<close> with its \<open>feature_type\<close> attribute.
\<close>

datatype 'b pyval =
    PNone
  | PInt int
  | PStr string
  | PDate int
  | PBBox "int list" string
  | PArr "'b ndarray"
  | PList "'b pyval list"
  | PDict "(string \<times> 'b pyval) list"
  | PFeatureDict FeatureType "(string \<times> 'b pyval) list"

datatype error =
    TypeError_attribute FeatureType
  | TypeError_not_a_dict FeatureType
  | TypeError_item_assignment
  | TypeError_len_of_None
  | TypeError_unhashable
  | TypeError_not_iterable
  | TypeError_operand
  | AttributeError_shape
  | AttributeError_items
  | KeyError string
  | IndexError
  | ValueError_dimension FeatureType nat
  | ValueError_merge_feature FeatureType string
  | ValueError_merge FeatureType
  | ValueError_non_temporal_dimensions
  | ValueError_numpy_concatenate
  | ValueError_feature_list
  | ValueError_different_timestamp
  | ValueError_eopatch_or_bbox
  | BaseException_file_exists
  | BaseException_folder_contains_files
  | BaseException_casing string string

fun isinstance :: "'b pyval \<Rightarrow> pytype \<Rightarrow> bool" where
  "isinstance v TObject = True"
| "isinstance (PDict d) TDict = True"
| "isinstance (PFeatureDict ft d) TDict = True"
| "isinstance (PList xs) TList = True"
| "isinstance v t = False"

fun is_FeatureDict :: "'b pyval \<Rightarrow> bool" where
  "is_FeatureDict (PFeatureDict ft d) = True"
| "is_FeatureDict v = False"

text \<open>
  Python truthiness of a value (\<open>if not x\<close>): \<open>None\<close>, zero and the empty containers are
  false; an object that defines neither \<open>__bool__\<close> nor \<open>__len__\<close>, such as a date or a
  bounding box, is true. The program tests the timestamp list and the bounding box; the
  truth value that numpy gives to an array is not modelled, and the statements that
  depend on it take the bounding box to be \<open>None\<close> or a bounding box.
\<close>

fun truthy :: "'b pyval \<Rightarrow> bool" where
  "truthy PNone = False"
| "truthy (PInt i) = (i \<noteq> 0)"
| "truthy (PStr s) = (s \<noteq> [])"
| "truthy (PList xs) = (xs \<noteq> [])"
| "truthy (PDict d) = (d \<noteq> [])"
| "truthy (PFeatureDict ft d) = (d \<noteq> [])"
| "truthy v = True"

text \<open>The items of a dictionary value, in insertion order.\<close>

fun items :: "'b pyval \<Rightarrow> (string \<times> 'b pyval) list" where
  "items (PDict d) = d"
| "items (PFeatureDict ft d) = d"
| "items v = []"

text \<open>
  \<open>d[k] = v\<close> on a built-in dictionary: an existing key keeps its position, a new key is
  appended.
\<close>

definition dict_setitem :: "(string \<times> 'v) list \<Rightarrow> string \<Rightarrow> 'v \<Rightarrow> (string \<times> 'v) list" where
  "dict_setitem d k v = AList.update k v d"

section \<open>The validated mapping \<open>_FeatureDict\<close>\<close>

text \<open>\<open>isinstance(value, np.ndarray) and value.ndim == n\<close>\<close>

fun is_array_of_ndim :: "nat \<Rightarrow> 'b pyval \<Rightarrow> bool" where
  "is_array_of_ndim n (PArr a) = (length (shape a) = n)"
| "is_array_of_ndim n v = False"

text \<open>
  \<open>_FeatureDict.__setitem__\<close>. The test \<open>self.ndim and ...\<close> skips the check when the rank
  is \<open>None\<close> (or zero).
\<close>

definition FeatureDict_setitem ::
  "FeatureType \<Rightarrow> (string \<times> 'b pyval) list \<Rightarrow> string \<Rightarrow> 'b pyval \<Rightarrow> error + (string \<times> 'b pyval) list" where
  "FeatureDict_setitem ft d feature_name v =
     (case ndim ft of
        None \<Rightarrow> Inr (dict_setitem d feature_name v)
      | Some n \<Rightarrow>
          if n \<noteq> 0 \<and> \<not> is_array_of_ndim n v then Inl (ValueError_dimension ft n)
          else Inr (dict_setitem d feature_name v))"

text \<open>
  The loop of \<open>_FeatureDict.__init__\<close>: every item of the given dictionary is written
  through \<open>__setitem__\<close>, the first failure aborts the construction.
\<close>

fun FeatureDict_fill ::
  "FeatureType \<Rightarrow> (string \<times> 'b pyval) list \<Rightarrow> (string \<times> 'b pyval) list \<Rightarrow> error + (string \<times> 'b pyval) list" where
  "FeatureDict_fill ft d [] = Inr d"
| "FeatureDict_fill ft d ((feature_name, v) # rest) =
     (case FeatureDict_setitem ft d feature_name v of
        Inl e \<Rightarrow> Inl e
      | Inr d' \<Rightarrow> FeatureDict_fill ft d' rest)"

definition FeatureDict_init :: "(string \<times> 'b pyval) list \<Rightarrow> FeatureType \<Rightarrow> error + 'b pyval" where
  "FeatureDict_init feature_dict ft =
     (case FeatureDict_fill ft [] feature_dict of
        Inl e \<Rightarrow> Inl e
      | Inr d \<Rightarrow> Inr (PFeatureDict ft d))"

section \<open>The patch\<close>

text \<open>
  An \<open>EOPatch\<close> instance is the value of its thirteen namespace attributes; attributes
  with other names are not part of the model.
\<close>

type_synonym 'b eopatch = "FeatureType \<Rightarrow> 'b pyval"

text \<open>\<open>EOPatch.__setattr__\<close>\<close>

definition setattr :: "'b eopatch \<Rightarrow> string \<Rightarrow> 'b pyval \<Rightarrow> error + 'b eopatch" where
  "setattr self key v =
     (case FeatureType_of key of
        None \<Rightarrow> Inr self
      | Some ft \<Rightarrow>
          if \<not> isinstance v (ftype_type ft) then Inl (TypeError_attribute ft)
          else if has_dict ft \<and> \<not> is_FeatureDict v then
            (case FeatureDict_init (items v) ft of
               Inl e \<Rightarrow> Inl e
             | Inr fd \<Rightarrow> Inr (self(ft := fd)))
          else Inr (self(ft := v)))"

text \<open>\<open>EOPatch.__getitem__\<close> and \<open>EOPatch.__setitem__\<close>, for a member of the enumeration.\<close>

definition getitem :: "'b eopatch \<Rightarrow> FeatureType \<Rightarrow> 'b pyval" where
  "getitem self ft = self ft"


text \<open>
  \<open>EOPatch.__init__\<close>: thirteen assignments in the order of the enumeration, each through
  \<open>__setattr__\<close>. An argument that is \<open>None\<close> is replaced by an empty dictionary, or an
  empty list for the timestamp; the bounding box is assigned as given.
\<close>

definition init_value :: "FeatureType \<Rightarrow> 'b pyval \<Rightarrow> 'b pyval" where
  "init_value ft arg =
     (if ft = BBOX then arg
      else if arg \<noteq> PNone then arg
      else if ft = TIMESTAMP then PList []
      else PDict [])"

fun assign_all :: "'b eopatch \<Rightarrow> (FeatureType \<Rightarrow> 'b pyval) \<Rightarrow> FeatureType list \<Rightarrow> error + 'b eopatch" where
  "assign_all self args [] = Inr self"
| "assign_all self args (ft # fts) =
     (case setattr self (ft_value ft) (init_value ft (args ft)) of
        Inl e \<Rightarrow> Inl e
      | Inr self' \<Rightarrow> assign_all self' args fts)"

definition EOPatch_init :: "(FeatureType \<Rightarrow> 'b pyval) \<Rightarrow> error + 'b eopatch" where
  "EOPatch_init args = assign_all (\<lambda>ft. PNone) args feature_types"

text \<open>\<open>EOPatch()\<close>: no argument given.\<close>

definition no_args :: "FeatureType \<Rightarrow> 'b pyval" where
  "no_args = (\<lambda>ft. PNone)"

text \<open>\<open>obj[name] = v\<close> for the value of a namespace attribute.\<close>

fun obj_setitem :: "'b pyval \<Rightarrow> string \<Rightarrow> 'b pyval \<Rightarrow> error + 'b pyval" where
  "obj_setitem (PFeatureDict ft d) feature_name v =
     (case FeatureDict_setitem ft d feature_name v of
        Inl e \<Rightarrow> Inl e
      | Inr d' \<Rightarrow> Inr (PFeatureDict ft d'))"
| "obj_setitem (PDict d) feature_name v = Inr (PDict (dict_setitem d feature_name v))"
| "obj_setitem obj feature_name v = Inl TypeError_item_assignment"

text \<open>\<open>EOPatch._check_if_dict\<close>\<close>

definition check_if_dict :: "FeatureType \<Rightarrow> error option" where
  "check_if_dict ft = (if ftype_type ft \<noteq> TDict then Some (TypeError_not_a_dict ft) else None)"

text \<open>\<open>EOPatch.add_feature\<close>: the namespace's mapping is updated in place.\<close>

definition add_feature :: "'b eopatch \<Rightarrow> FeatureType \<Rightarrow> string \<Rightarrow> 'b pyval \<Rightarrow> error + 'b eopatch" where
  "add_feature self ft feature_name v =
     (case check_if_dict ft of
        Some e \<Rightarrow> Inl e
      | None \<Rightarrow>
          (case obj_setitem (getitem self ft) feature_name v of
             Inl e \<Rightarrow> Inl e
           | Inr obj \<Rightarrow> Inr (self(ft := obj))))"

text \<open>\<open>EOPatch.remove_feature\<close>\<close>

fun obj_delitem :: "'b pyval \<Rightarrow> string \<Rightarrow> 'b pyval" where
  "obj_delitem (PFeatureDict ft d) feature_name = PFeatureDict ft (AList.delete feature_name d)"
| "obj_delitem (PDict d) feature_name = PDict (AList.delete feature_name d)"
| "obj_delitem obj feature_name = obj"

definition remove_feature :: "'b eopatch \<Rightarrow> FeatureType \<Rightarrow> string \<Rightarrow> error + 'b eopatch" where
  "remove_feature self ft feature_name =
     (case check_if_dict ft of
        Some e \<Rightarrow> Inl e
      | None \<Rightarrow> Inr (self(ft := obj_delitem (getitem self ft) feature_name)))"

section \<open>Patches that the interface can produce\<close>

text \<open>
  The patches that exist at run time: the results of the constructor, changed by attribute
  assignment (which \<open>__setitem__\<close>, \<open>set_bbox\<close> and \<open>set_timestamp\<close> go through),
  \<open>add_feature\<close> and \<open>remove_feature\<close>.
\<close>

inductive reachable :: "'b eopatch \<Rightarrow> bool" where
  reach_init: "EOPatch_init args = Inr p \<Longrightarrow> reachable p"
| reach_setattr: "reachable p \<Longrightarrow> setattr p key v = Inr p' \<Longrightarrow> reachable p'"
| reach_add: "reachable p \<Longrightarrow> add_feature p ft feature_name v = Inr p' \<Longrightarrow> reachable p'"
| reach_remove: "reachable p \<Longrightarrow> remove_feature p ft feature_name = Inr p' \<Longrightarrow> reachable p'"

text \<open>The container kind that \<open>__setattr__\<close> lets through for a namespace.\<close>

definition val_ok :: "FeatureType \<Rightarrow> 'b pyval \<Rightarrow> bool" where
  "val_ok ft v =
     (if has_dict ft then is_FeatureDict v
      else if ft = TIMESTAMP then isinstance v TList
      else True)"

definition attrs_ok :: "'b eopatch \<Rightarrow> bool" where
  "attrs_ok p = (\<forall>ft \<in> set feature_types. val_ok ft (p ft))"

text \<open>The value of \<open>EOPatch()\<close>.\<close>

definition empty_patch :: "'b eopatch" where
  "empty_patch =
     (\<lambda>ft. if has_dict ft then PFeatureDict ft []
           else if ft = TIMESTAMP then PList []
           else PNone)"

text \<open>Concrete arrays for the examples: one frame of one pixel, of rank 4 and of rank 2.\<close>

definition arr4 :: "int list pyval" where
  "arr4 = PArr (NDArray Int64 [1, 1, 1, 1] [7])"

definition arr2 :: "int list pyval" where
  "arr2 = PArr (NDArray Int64 [1, 1] [7])"

section \<open>Deep equality\<close>

text \<open>
  Modelled from the spec: \<open>deep_eq\<close> of the module \<open>utilities\<close>, which is not among the
  sources. Arrays are equal when shape and elements are; lists are compared element by
  element; dictionaries have the same keys and, under each key, deeply equal values,
  whatever the order of insertion; values of different kinds are different; everything else is compared
  with \<open>==\<close>.
\<close>

fun deep_eq :: "'b pyval \<Rightarrow> 'b pyval \<Rightarrow> bool" where
  "deep_eq (PArr a) w = (case w of PArr b \<Rightarrow> shape a = shape b \<and> buf a = buf b | _ \<Rightarrow> False)"
| "deep_eq (PList xs) w = (case w of PList ys \<Rightarrow> list_all2 deep_eq xs ys | _ \<Rightarrow> False)"
| "deep_eq (PDict d1) w =
     (case w of
        PDict d2 \<Rightarrow>
          (\<forall>k \<in> set (map fst d2). k \<in> set (map fst d1)) \<and>
          (\<forall>(k, v) \<in> set d1. map_of d1 k = Some v \<longrightarrow>
             (case map_of d2 k of None \<Rightarrow> False | Some v' \<Rightarrow> deep_eq v v'))
      | _ \<Rightarrow> False)"
| "deep_eq (PFeatureDict ft1 d1) w =
     (case w of
        PFeatureDict ft2 d2 \<Rightarrow>
          (\<forall>k \<in> set (map fst d2). k \<in> set (map fst d1)) \<and>
          (\<forall>(k, v) \<in> set d1. map_of d1 k = Some v \<longrightarrow>
             (case map_of d2 k of None \<Rightarrow> False | Some v' \<Rightarrow> deep_eq v v'))
      | _ \<Rightarrow> False)"
| "deep_eq PNone w = (w = PNone)"
| "deep_eq (PInt i) w = (w = PInt i)"
| "deep_eq (PStr s) w = (w = PStr s)"
| "deep_eq (PDate t) w = (w = PDate t)"
| "deep_eq (PBBox b c) w = (w = PBBox b c)"


section \<open>Merging two patches\<close>

text \<open>
  numpy's element type of the result of an operation on arrays of two element types: the
  common one, and \<open>float64\<close> for two different ones among \<open>int64\<close>, \<open>uint64\<close> and
  \<open>float64\<close>.
\<close>

definition result_type :: "dtype \<Rightarrow> dtype \<Rightarrow> dtype" where
  "result_type t1 t2 = (if t1 = t2 then t1 else Float64)"

text \<open>The number of binary digits of a positive integer.\<close>

function bit_length :: "int \<Rightarrow> nat" where
  "bit_length i = (if i \<le> 0 then 0 else Suc (bit_length (i div 2)))"
  by pat_completeness auto

termination
  by (relation "measure nat") auto

declare bit_length.simps [simp del]

text \<open>
  The conversion of an integer to \<open>float64\<close>: the nearest number with 53 significant
  binary digits, the one with the even last digit when two are equally near. The result
  is an integer again.
\<close>

definition float64_of_int :: "int \<Rightarrow> int" where
  "float64_of_int i =
     (let m = \<bar>i\<bar>;
          k = bit_length m - 53;
          q = m div 2 ^ k;
          r = m mod 2 ^ k;
          q' = (if 2 ^ k < 2 * r \<or> (2 * r = 2 ^ k \<and> q mod 2 = 1) then q + 1 else q)
      in sgn i * (q' * 2 ^ k))"

text \<open>\<open>a.astype(t')\<close> on the buffer of an array of element type \<open>t\<close>.\<close>

definition astype :: "dtype \<Rightarrow> dtype \<Rightarrow> int list \<Rightarrow> int list" where
  "astype t t' xs = (if t' = Float64 \<and> t \<noteq> Float64 then map float64_of_int xs else xs)"

text \<open>
  \<open>np.concatenate((a, b), axis=0)\<close> on row-major buffers: numpy rejects arrays without
  an axis and arrays whose other dimensions differ, and converts the elements of both
  arrays to the element type of the result.
\<close>

definition np_concatenate :: "int list ndarray \<Rightarrow> int list ndarray \<Rightarrow> error + int list ndarray" where
  "np_concatenate a b =
     (if shape a = [] \<or> shape b = [] \<or> drop 1 (shape a) \<noteq> drop 1 (shape b)
      then Inl ValueError_numpy_concatenate
      else Inr (NDArray (result_type (dtype a) (dtype b))
                  ((hd (shape a) + hd (shape b)) # drop 1 (shape a))
                  (astype (dtype a) (result_type (dtype a) (dtype b)) (buf a)
                   @ astype (dtype b) (result_type (dtype a) (dtype b)) (buf b))))"

text \<open>\<open>EOPatch.concatenate_data\<close>; a value that is not an array has no \<open>shape\<close>.\<close>

fun concatenate_data :: "int list pyval \<Rightarrow> int list pyval \<Rightarrow> error + int list pyval" where
  "concatenate_data (PArr data1) (PArr data2) =
     (if drop 1 (shape data1) \<noteq> drop 1 (shape data2) then Inl ValueError_non_temporal_dimensions
      else (case np_concatenate data1 data2 of
              Inl e \<Rightarrow> Inl e
            | Inr a \<Rightarrow> Inr (PArr a)))"
| "concatenate_data data1 data2 = Inl AttributeError_shape"

text \<open>\<open>{**d1, **d2}\<close>\<close>

definition dict_union :: "(string \<times> 'v) list \<Rightarrow> (string \<times> 'v) list \<Rightarrow> (string \<times> 'v) list" where
  "dict_union d1 d2 = fold (\<lambda>(k, v) d. dict_setitem d k v) d2 d1"


text \<open>
  A loop over a Python set visits its elements in the order of the hash table, which
  depends on the hash seed of the process and not on the program. The merge therefore
  takes that order as an argument \<open>order\<close>: a function that lists the elements of a set
  of names, each once.
\<close>

definition iteration_order :: "(string list \<Rightarrow> string list) \<Rightarrow> bool" where
  "iteration_order order =
     (\<forall>ks. distinct ks \<longrightarrow> distinct (order ks) \<and> set (order ks) = set ks)"

text \<open>Two such orders: that of the first dictionary, and its reverse.\<close>

definition first_order :: "string list \<Rightarrow> string list" where
  "first_order ks = ks"

definition reverse_order :: "string list \<Rightarrow> string list" where
  "reverse_order ks = rev ks"



text \<open>
  The inner loop of \<open>EOPatch.concatenate\<close> over the feature names that both patches
  have in one namespace; \<open>along_time\<close> is the condition
  \<open>feature_type.is_time_dependent() and not timestamps_match\<close>.
\<close>

fun merge_common ::
  "bool \<Rightarrow> FeatureType \<Rightarrow> (string \<times> int list pyval) list \<Rightarrow> (string \<times> int list pyval) list \<Rightarrow>
   (string \<times> int list pyval) list \<Rightarrow> string list \<Rightarrow> error + (string \<times> int list pyval) list" where
  "merge_common along_time ft d1 d2 content [] = Inr content"
| "merge_common along_time ft d1 d2 content (feature_name # names) =
     (case (map_of d1 feature_name, map_of d2 feature_name) of
        (Some data1, Some data2) \<Rightarrow>
          if along_time then
            (case concatenate_data data1 data2 of
               Inl e \<Rightarrow> Inl e
             | Inr data \<Rightarrow>
                 merge_common along_time ft d1 d2 (dict_setitem content feature_name data) names)
          else if \<not> deep_eq data1 data2 then Inl (ValueError_merge_feature ft feature_name)
          else merge_common along_time ft d1 d2 content names
      | _ \<Rightarrow> Inl (KeyError feature_name))"










text \<open>An array that has a first axis.\<close>

definition has_time_axis :: "'b pyval \<Rightarrow> bool" where
  "has_time_axis v = (case v of PArr a \<Rightarrow> shape a \<noteq> [] | _ \<Rightarrow> False)"





















section \<open>Saving a patch\<close>


text \<open>What the file system has at the path given to \<open>save\<close>.\<close>

datatype path_state = Absent | IsFile | EmptyDir | NonEmptyDir












section \<open>Consolidating the timestamps\<close>

text \<open>
  The values that Python can hash: \<open>None\<close>, numbers, strings and dates. Lists,
  dictionaries and arrays cannot be hashed; a bounding box is not an element of the
  lists considered here and is counted with them.
\<close>

fun hashable :: "'b pyval \<Rightarrow> bool" where
  "hashable PNone = True"
| "hashable (PInt i) = True"
| "hashable (PStr s) = True"
| "hashable (PDate t) = True"
| "hashable v = False"

text \<open>
  \<open>set(xs).difference(ys)\<close>: the elements of \<open>xs\<close> that are not in \<open>ys\<close>, once each; every
  element of both lists is hashed. The set is kept as a list of its elements, whose order
  plays no part in what follows.
\<close>

definition set_difference :: "'b pyval list \<Rightarrow> 'b pyval list \<Rightarrow> error + 'b pyval list" where
  "set_difference xs ys =
     (if list_all hashable xs \<and> list_all hashable ys
      then Inr (remdups (filter (\<lambda>x. x \<notin> set ys) xs))
      else Inl TypeError_unhashable)"

text \<open>\<open>xs.index(x)\<close>: the position of the first element equal to \<open>x\<close>.\<close>

fun list_index :: "'a list \<Rightarrow> 'a \<Rightarrow> nat option" where
  "list_index [] x = None"
| "list_index (y # ys) x = (if y = x then Some 0 else map_option Suc (list_index ys x))"

text \<open>
  \<open>[self.timestamp.index(rm_date) for rm_date in remove_from_patch]\<close>; every date of the
  set is in the list, so that \<open>index\<close> finds it.
\<close>

definition remove_idxs :: "'a list \<Rightarrow> 'a list \<Rightarrow> nat list" where
  "remove_idxs timestamp remove_from_patch =
     concat (map (\<lambda>rm_date. case list_index timestamp rm_date of None \<Rightarrow> [] | Some i \<Rightarrow> [i])
               remove_from_patch)"

text \<open>\<open>[idx for idx, _ in enumerate(self.timestamp) if idx not in remove_from_patch_idxs]\<close>\<close>

definition good_idxs :: "'a list \<Rightarrow> nat list \<Rightarrow> nat list" where
  "good_idxs timestamp remove_from_patch_idxs =
     filter (\<lambda>idx. idx \<notin> set remove_from_patch_idxs) [0..<length timestamp]"

text \<open>
  \<open>value[idxs, ...]\<close> for an array with a row-major buffer: the frames with the given
  indices along the first axis. An array without an axis cannot be indexed, and an index
  beyond the first dimension is an error.
\<close>

definition take_frames :: "'a list ndarray \<Rightarrow> nat list \<Rightarrow> error + 'a list ndarray" where
  "take_frames a idxs =
     (if shape a = [] then Inl IndexError
      else if \<not> list_all (\<lambda>idx. idx < hd (shape a)) idxs then Inl IndexError
      else Inr (NDArray (dtype a) (length idxs # tl (shape a))
                 (concat (map (\<lambda>idx. take (prod_list (tl (shape a)))
                                        (drop (idx * prod_list (tl (shape a))) (buf a)))
                            idxs))))"

text \<open>\<open>[value[idx] for idx in idxs]\<close> for a list.\<close>

definition take_items :: "'b pyval list \<Rightarrow> nat list \<Rightarrow> error + 'b pyval list" where
  "take_items xs idxs =
     (if list_all (\<lambda>idx. idx < length xs) idxs then Inr (map (\<lambda>idx. xs ! idx) idxs)
      else Inl IndexError)"

text \<open>
  The inner loop of \<open>consolidate_timestamps\<close>, over the items that the mapping of one
  namespace had when the loop began: an array and a list are replaced, through
  \<open>__setitem__\<close> of the mapping, by their selected frames; other values are left. The
  mapping is changed in place, so the result is the mapping as far as it was changed,
  with the error that ended the loop, if any.
\<close>

fun consolidate_items ::
  "'a list pyval \<Rightarrow> nat list \<Rightarrow> (string \<times> 'a list pyval) list \<Rightarrow> 'a list pyval \<times> error option" where
  "consolidate_items obj good_timestamp_idxs [] = (obj, None)"
| "consolidate_items obj good_timestamp_idxs ((feature_name, v) # rest) =
     (case v of
        PArr a \<Rightarrow>
          (case take_frames a good_timestamp_idxs of
             Inl e \<Rightarrow> (obj, Some e)
           | Inr a' \<Rightarrow>
               (case obj_setitem obj feature_name (PArr a') of
                  Inl e \<Rightarrow> (obj, Some e)
                | Inr obj' \<Rightarrow> consolidate_items obj' good_timestamp_idxs rest))
      | PList xs \<Rightarrow>
          (case take_items xs good_timestamp_idxs of
             Inl e \<Rightarrow> (obj, Some e)
           | Inr xs' \<Rightarrow>
               (case obj_setitem obj feature_name (PList xs') of
                  Inl e \<Rightarrow> (obj, Some e)
                | Inr obj' \<Rightarrow> consolidate_items obj' good_timestamp_idxs rest))
      | _ \<Rightarrow> consolidate_items obj good_timestamp_idxs rest)"

text \<open>
  The outer loop, over the time-dependent feature types. The mappings of the namespaces
  are taken to be different objects, as they are after the constructor.
\<close>

fun consolidate_types ::
  "'a list eopatch \<Rightarrow> nat list \<Rightarrow> FeatureType list \<Rightarrow> 'a list eopatch \<times> error option" where
  "consolidate_types self good_timestamp_idxs [] = (self, None)"
| "consolidate_types self good_timestamp_idxs (ft # fts) =
     (if \<not> isinstance (getitem self ft) TDict then (self, Some AttributeError_items)
      else
        (case consolidate_items (getitem self ft) good_timestamp_idxs (items (getitem self ft)) of
           (obj, Some e) \<Rightarrow> (self(ft := obj), Some e)
         | (obj, None) \<Rightarrow> consolidate_types (self(ft := obj)) good_timestamp_idxs fts))"

text \<open>
  \<open>EOPatch.consolidate_timestamps\<close>: the patch after the call, and the returned set of
  dates or the error raised.
\<close>

definition consolidate_timestamps ::
  "'a list eopatch \<Rightarrow> 'a list pyval list \<Rightarrow> 'a list eopatch \<times> (error + 'a list pyval set)" where
  "consolidate_timestamps self timestamps =
     (case getitem self TIMESTAMP of
        PList timestamp \<Rightarrow>
          (case set_difference timestamp timestamps of
             Inl e \<Rightarrow> (self, Inl e)
           | Inr remove_from_patch \<Rightarrow>
               (let remove_from_patch_idxs = remove_idxs timestamp remove_from_patch;
                    good_timestamp_idxs = good_idxs timestamp remove_from_patch_idxs;
                    good_timestamps = map (\<lambda>idx. timestamp ! idx) good_timestamp_idxs
                in case consolidate_types self good_timestamp_idxs
                          (filter is_time_dependent feature_types) of
                     (self', Some e) \<Rightarrow> (self', Inl e)
                   | (self', None) \<Rightarrow>
                       (case setattr self' ''timestamp'' (PList good_timestamps) of
                          Inl e \<Rightarrow> (self', Inl e)
                        | Inr self'' \<Rightarrow> (self'', Inr (set remove_from_patch)))))
      | _ \<Rightarrow> (self, Inl TypeError_not_iterable))"

text \<open>A patch with three frames of one pixel under \<open>data['x']\<close>, and its timestamps.\<close>

definition patch_frames :: "int list pyval list \<Rightarrow> int list eopatch" where
  "patch_frames ts =
     empty_patch(DATA := PFeatureDict DATA [(''x'', PArr (NDArray Int64 [3, 1, 1, 1] [10, 11, 12]))],
       TIMESTAMP := PList ts)"


section \<open>The input task of the processing API\<close>

text \<open>
  What \<open>SentinelHubInputBase.__init__\<close> leaves in \<open>self.size\<close> and \<open>self.resolution\<close>: it
  raises unless exactly one of the two is given.
\<close>

datatype pixel_size = Size nat nat | Resolution nat nat

text \<open>
  The collaborators of \<open>execute\<close>, which are not part of the sources and are parameters
  here: \<open>bbox_to_dimensions\<close> of the library; \<open>parse_time_interval\<close> followed by
  \<open>_get_timestamp\<close>, which resolves the list of timestamps; and all that \<open>execute\<close> does
  after the check of the timestamps (the payloads, the download, \<open>_extract_data\<close> and the
  entries of the meta-information), which returns the patch.
\<close>

record collaborators =
  bbox_to_dimensions :: "int list pyval \<Rightarrow> nat \<Rightarrow> nat \<Rightarrow> error + nat \<times> nat"
  get_timestamp :: "int list pyval \<Rightarrow> int list pyval \<Rightarrow> error + int list pyval list"
  fetch ::
    "int list eopatch \<Rightarrow> int list pyval \<Rightarrow> nat \<Rightarrow> nat \<Rightarrow> int list pyval list option \<Rightarrow>
     int list pyval \<Rightarrow> error + int list eopatch"

text \<open>
  \<open>check_timestamp_difference\<close>, with the arguments that \<open>execute\<close> passes: the local
  variable \<open>timestamp\<close>, which is \<open>None\<close> or a list, and the list of the patch. \<open>len(None)\<close>
  is a \<open>TypeError\<close>.
\<close>

definition check_timestamp_difference ::
  "'b pyval list option \<Rightarrow> 'b pyval list \<Rightarrow> error option" where
  "check_timestamp_difference timestamp1 timestamp2 =
     (case timestamp1 of
        None \<Rightarrow> Some TypeError_len_of_None
      | Some ts \<Rightarrow>
          if length ts \<noteq> length timestamp2 then Some ValueError_different_timestamp
          else if list_ex (\<lambda>(ts1, ts2). ts1 \<noteq> ts2) (zip ts timestamp2)
          then Some ValueError_different_timestamp
          else None)"

text \<open>The elements of a list value.\<close>

fun list_items :: "'b pyval \<Rightarrow> 'b pyval list" where
  "list_items (PList xs) = xs"
| "list_items v = []"

text \<open>
  \<open>SentinelHubInputBase.execute\<close>, up to the call of the collaborator that fetches the
  data.
\<close>

definition execute ::
  "pixel_size \<Rightarrow> collaborators \<Rightarrow> int list eopatch option \<Rightarrow> int list pyval \<Rightarrow> int list pyval \<Rightarrow>
   error + int list eopatch" where
  "execute self_size c eopatch bbox time_interval =
     (if eopatch \<noteq> None \<and> (truthy bbox \<or> truthy time_interval) then Inl ValueError_eopatch_or_bbox
      else
        (case (case eopatch of
                 None \<Rightarrow>
                   (case EOPatch_init no_args of
                      Inl e \<Rightarrow> Inl e
                    | Inr p \<Rightarrow> setattr p ''bbox'' bbox)
               | Some p \<Rightarrow> Inr p) of
           Inl e \<Rightarrow> Inl e
         | Inr eopatch' \<Rightarrow>
             (case (case self_size of
                      Size x y \<Rightarrow> Inr (x, y)
                    | Resolution rx ry \<Rightarrow> bbox_to_dimensions c (getitem eopatch' BBOX) rx ry) of
                Inl e \<Rightarrow> Inl e
              | Inr (size_x, size_y) \<Rightarrow>
                  (case (if truthy time_interval
                         then (case get_timestamp c time_interval bbox of
                                 Inl e \<Rightarrow> Inl e
                               | Inr ts \<Rightarrow> Inr (Some ts))
                         else Inr None) of
                     Inl e \<Rightarrow> Inl e
                   | Inr timestamp \<Rightarrow>
                       if truthy (getitem eopatch' TIMESTAMP) then
                         (case check_timestamp_difference timestamp
                                 (list_items (getitem eopatch' TIMESTAMP)) of
                            Some e \<Rightarrow> Inl e
                          | None \<Rightarrow> fetch c eopatch' bbox size_x size_y timestamp time_interval)
                       else if timestamp \<noteq> None \<and> timestamp \<noteq> Some [] then
                         (case setattr eopatch' ''timestamp'' (PList (the timestamp)) of
                            Inl e \<Rightarrow> Inl e
                          | Inr eopatch'' \<Rightarrow>
                              fetch c eopatch'' bbox size_x size_y timestamp time_interval)
                       else fetch c eopatch' bbox size_x size_y timestamp time_interval))))"

text \<open>A patch that is there before the task runs, with one timestamp.\<close>

definition patch_seed :: "int list eopatch" where
  "patch_seed = empty_patch(TIMESTAMP := PList [PDate 0])"

text \<open>
  Collaborators for the examples: a bounding box of one pixel, no timestamps, and a fetch
  that returns the patch as it is.
\<close>

definition idle_collaborators :: collaborators where
  "idle_collaborators =
     \<lparr>bbox_to_dimensions = (\<lambda>b rx ry. Inr (1, 1)),
      get_timestamp = (\<lambda>time_interval b. Inr []),
      fetch = (\<lambda>p b size_x size_y timestamp time_interval. Inr p)\<rparr>"

section \<open>Properties of the registry and of the validated mapping\<close>

lemma ndim_nonzero: "ndim ft = Some r \<Longrightarrow> r \<noteq> 0"
  by (cases ft) auto

lemma all_feature_types: "ft \<in> set feature_types"
  by (cases ft) (simp_all add: feature_types_def)

lemma FeatureType_of_ft_value: "FeatureType_of (ft_value ft) = Some ft"
  by (cases ft) (simp_all add: FeatureType_of_def feature_types_def)



lemma has_dict_type: "has_dict ft \<Longrightarrow> ftype_type ft = TDict"
  by (cases ft) auto

lemma FeatureDict_setitem_bad:
  "ndim ft = Some r \<Longrightarrow> \<not> is_array_of_ndim r v \<Longrightarrow>
   FeatureDict_setitem ft d name v = Inl (ValueError_dimension ft r)"
  by (simp add: FeatureDict_setitem_def ndim_nonzero)





lemma EOPatch_init_no_args: "EOPatch_init no_args = Inr empty_patch"
proof -
  have "(\<lambda>ft. PNone)
      (DATA := PFeatureDict DATA [], MASK := PFeatureDict MASK [],
       SCALAR := PFeatureDict SCALAR [], LABEL := PFeatureDict LABEL [],
       VECTOR := PFeatureDict VECTOR [], DATA_TIMELESS := PFeatureDict DATA_TIMELESS [],
       MASK_TIMELESS := PFeatureDict MASK_TIMELESS [],
       SCALAR_TIMELESS := PFeatureDict SCALAR_TIMELESS [],
       LABEL_TIMELESS := PFeatureDict LABEL_TIMELESS [],
       VECTOR_TIMELESS := PFeatureDict VECTOR_TIMELESS [],
       META_INFO := PFeatureDict META_INFO [], BBOX := PNone, TIMESTAMP := PList []) =
     (empty_patch :: 'a eopatch)"
  proof (rule ext)
    fix ft :: FeatureType
    show "((\<lambda>ft. PNone)
      (DATA := PFeatureDict DATA [], MASK := PFeatureDict MASK [],
       SCALAR := PFeatureDict SCALAR [], LABEL := PFeatureDict LABEL [],
       VECTOR := PFeatureDict VECTOR [], DATA_TIMELESS := PFeatureDict DATA_TIMELESS [],
       MASK_TIMELESS := PFeatureDict MASK_TIMELESS [],
       SCALAR_TIMELESS := PFeatureDict SCALAR_TIMELESS [],
       LABEL_TIMELESS := PFeatureDict LABEL_TIMELESS [],
       VECTOR_TIMELESS := PFeatureDict VECTOR_TIMELESS [],
       META_INFO := PFeatureDict META_INFO [], BBOX := PNone, TIMESTAMP := PList [])) ft =
     (empty_patch :: 'a eopatch) ft"
      by (cases ft) (simp_all add: empty_patch_def)
  qed
  then show ?thesis
    by (simp add: EOPatch_init_def feature_types_def no_args_def init_value_def setattr_def
        FeatureType_of_def FeatureDict_init_def)
qed

section \<open>Invariants of the namespace attributes\<close>

lemma FeatureDict_init_is: "FeatureDict_init raw ft = Inr fd \<Longrightarrow> \<exists>d. fd = PFeatureDict ft d"
  by (auto simp: FeatureDict_init_def split: sum.splits)

lemma setattr_Inr:
  assumes "setattr self key v = Inr p'" and "FeatureType_of key = Some ft"
  shows "val_ok ft (p' ft)" and "\<And>ft'. ft' \<noteq> ft \<Longrightarrow> p' ft' = self ft'"
  using assms
  by (auto simp: setattr_def val_ok_def split: if_splits sum.splits dest: FeatureDict_init_is
      elim: isinstance.elims)

lemma setattr_other: "setattr self key v = Inr p' \<Longrightarrow> FeatureType_of key = None \<Longrightarrow> p' = self"
  by (simp add: setattr_def)

lemma setattr_val_ok:
  assumes "setattr self key v = Inr p'" and "val_ok ft (self ft)"
  shows "val_ok ft (p' ft)"
proof (cases "FeatureType_of key")
  case None
  show ?thesis using setattr_other[OF assms(1) None] assms(2) by simp
next
  case (Some ft')
  with assms setattr_Inr[OF assms(1) Some] show ?thesis by (cases "ft' = ft") auto
qed

lemma assign_all_val_ok:
  "assign_all self args fts = Inr p \<Longrightarrow> ft \<in> set fts \<or> val_ok ft (self ft) \<Longrightarrow> val_ok ft (p ft)"
proof (induction fts arbitrary: self)
  case Nil
  then show ?case by simp
next
  case (Cons a fts)
  from Cons.prems(1) obtain self' where
    s: "setattr self (ft_value a) (init_value a (args a)) = Inr self'" and
    r: "assign_all self' args fts = Inr p"
    by (auto split: sum.splits)
  have "ft \<in> set fts \<or> val_ok ft (self' ft)"
  proof (cases "ft = a")
    case True
    with setattr_Inr(1)[OF s FeatureType_of_ft_value] show ?thesis by simp
  next
    case False
    with Cons.prems(2) setattr_val_ok[OF s] show ?thesis by auto
  qed
  with Cons.IH[OF r] show ?case .
qed

lemma EOPatch_init_attrs_ok: "EOPatch_init args = Inr p \<Longrightarrow> attrs_ok p"
  unfolding attrs_ok_def EOPatch_init_def
  by (auto intro: assign_all_val_ok)

lemma obj_setitem_FeatureDict:
  "obj_setitem obj n v = Inr obj' \<Longrightarrow> is_FeatureDict obj \<Longrightarrow> is_FeatureDict obj'"
  by (cases obj) (auto split: sum.splits)

lemma add_feature_val_ok:
  assumes "add_feature p ft n v = Inr p'" and "val_ok ft' (p ft')"
  shows "val_ok ft' (p' ft')"
  using assms
  by (cases "ft' = ft")
    (auto simp: add_feature_def getitem_def val_ok_def check_if_dict_def
      split: option.splits sum.splits if_splits dest: obj_setitem_FeatureDict)

lemma obj_delitem_FeatureDict: "is_FeatureDict obj \<Longrightarrow> is_FeatureDict (obj_delitem obj n)"
  by (cases obj) auto

lemma remove_feature_val_ok:
  assumes "remove_feature p ft n = Inr p'" and "val_ok ft' (p ft')"
  shows "val_ok ft' (p' ft')"
  using assms
  by (cases "ft' = ft")
    (auto simp: remove_feature_def getitem_def val_ok_def check_if_dict_def
      split: option.splits if_splits dest: obj_delitem_FeatureDict)

lemma reachable_attrs_ok: "reachable p \<Longrightarrow> attrs_ok p"
proof (induction rule: reachable.induct)
  case (reach_init args p)
  then show ?case by (rule EOPatch_init_attrs_ok)
next
  case (reach_setattr p key v p')
  then show ?case unfolding attrs_ok_def by (auto intro: setattr_val_ok)
next
  case (reach_add p ft feature_name v p')
  then show ?case unfolding attrs_ok_def by (auto intro: add_feature_val_ok)
next
  case (reach_remove p ft feature_name p')
  then show ?case unfolding attrs_ok_def by (auto intro: remove_feature_val_ok)
qed

lemma reachable_val_ok: "reachable p \<Longrightarrow> val_ok ft (p ft)"
  using reachable_attrs_ok[of p] all_feature_types[of ft] by (simp add: attrs_ok_def)

lemma val_ok_not_None: "val_ok ft v \<Longrightarrow> ft \<noteq> BBOX \<Longrightarrow> v \<noteq> PNone"
  by (cases ft) (auto simp: val_ok_def)

lemma reachable_empty_patch: "reachable empty_patch"
  by (rule reach_init[OF EOPatch_init_no_args])

text \<open>
  C10, as the code has it. Assigning a value that is not an instance of the namespace's
  container type raises the \<open>TypeError\<close>, and no patch is produced in place of the old
  one. Every mapping-kind attribute of a patch is therefore an instance of
  \<open>_FeatureDict\<close>, and a write through it is checked against the rank of the namespace
  that this mapping is bound to. That is the attribute's own namespace when the assignment
  wrapped a raw dictionary; a \<open>_FeatureDict\<close> that is assigned is kept as it is.
\<close>

theorem attribute_container_type:
  assumes "reachable p"
  shows "(FeatureType_of key = Some ft \<and> \<not> isinstance v (ftype_type ft) \<longrightarrow>
            setattr p key v = Inl (TypeError_attribute ft))
       \<and> (has_dict ft \<longrightarrow>
            (\<exists>ft' d. getitem p ft = PFeatureDict ft' d
               \<and> (\<forall>r n w. ndim ft' = Some r \<and> \<not> is_array_of_ndim r w \<longrightarrow>
                     add_feature p ft n w = Inl (ValueError_dimension ft' r))))
       \<and> (has_dict ft \<and> setattr p (ft_value ft) (PDict raw) = Inr p' \<longrightarrow>
            (\<exists>d. getitem p' ft = PFeatureDict ft d))"
proof (intro conjI impI)
  assume "FeatureType_of key = Some ft \<and> \<not> isinstance v (ftype_type ft)"
  then show "setattr p key v = Inl (TypeError_attribute ft)"
    by (simp add: setattr_def)
next
  assume hd: "has_dict ft"
  with reachable_val_ok[OF assms, of ft] have "is_FeatureDict (p ft)"
    by (simp add: val_ok_def)
  then obtain ft' d where pd: "p ft = PFeatureDict ft' d"
    by (cases "p ft") auto
  have "\<forall>r n w. ndim ft' = Some r \<and> \<not> is_array_of_ndim r w \<longrightarrow>
          add_feature p ft n w = Inl (ValueError_dimension ft' r)"
    using hd pd
    by (simp add: add_feature_def check_if_dict_def has_dict_type getitem_def
        FeatureDict_setitem_bad)
  with pd show "\<exists>ft' d. getitem p ft = PFeatureDict ft' d
      \<and> (\<forall>r n w. ndim ft' = Some r \<and> \<not> is_array_of_ndim r w \<longrightarrow>
            add_feature p ft n w = Inl (ValueError_dimension ft' r))"
    by (simp add: getitem_def)
next
  assume "has_dict ft \<and> setattr p (ft_value ft) (PDict raw) = Inr p'"
  then show "\<exists>d. getitem p' ft = PFeatureDict ft d"
    by (auto simp: setattr_def FeatureType_of_ft_value getitem_def has_dict_type
        split: sum.splits dest!: FeatureDict_init_is)
qed

theorem attribute_container_type_witness:
  "reachable (empty_patch :: int list eopatch)
   \<and> FeatureType_of ''data'' = Some DATA \<and> \<not> isinstance (PList [] :: int list pyval) (ftype_type DATA)
   \<and> setattr (empty_patch :: int list eopatch) ''data'' (PList []) = Inl (TypeError_attribute DATA)
   \<and> FeatureType_of ''timestamp'' = Some TIMESTAMP
   \<and> has_dict SCALAR
   \<and> setattr (empty_patch :: int list eopatch) ''scalar'' (PDict [(''x'', arr2)])
       = Inr (empty_patch(SCALAR := PFeatureDict SCALAR [(''x'', arr2)]))
   \<and> (\<exists>ft' d. getitem (empty_patch :: int list eopatch) SCALAR = PFeatureDict ft' d
         \<and> (\<forall>r n w. ndim ft' = Some r \<and> \<not> is_array_of_ndim r w \<longrightarrow>
               add_feature (empty_patch :: int list eopatch) SCALAR n w
                 = Inl (ValueError_dimension ft' r)))
   \<and> (\<exists>d. getitem ((empty_patch :: int list eopatch)(SCALAR := PFeatureDict SCALAR [(''x'', arr2)])) SCALAR
         = PFeatureDict SCALAR d)"
proof -
  have s: "setattr empty_patch ''scalar'' (PDict [(''x'', arr2)])
       = Inr (empty_patch(SCALAR := PFeatureDict SCALAR [(''x'', arr2)]))"
    by (simp add: setattr_def FeatureType_of_def feature_types_def FeatureDict_init_def
        FeatureDict_setitem_def dict_setitem_def arr2_def)
  have r: "reachable (empty_patch :: int list eopatch)"
    by (rule reachable_empty_patch)
  show ?thesis
    using attribute_container_type [OF r, of "''data''" DATA "PList []" "[]" empty_patch]
      attribute_container_type [OF r, of "''scalar''" SCALAR "PNone"
        "[(''x'', arr2)]" "empty_patch(SCALAR := PFeatureDict SCALAR [(''x'', arr2)])"]
      s r
    by (simp add: FeatureType_of_def feature_types_def)
qed

text \<open>
  C10 as stated fails: the rank check that applies to a write need not be the one of the
  attribute's namespace. The mapping of \<open>EOPatch(data={'x': a})\<close>, with \<open>a\<close> of rank 4,
  is a \<open>_FeatureDict\<close> bound to \<open>data\<close>. Assigned to the \<open>scalar\<close> attribute of an
  empty patch it is kept as it is, and the patch then accepts a further array of rank 4
  under \<open>scalar\<close>, whose rank is 2, and rejects an array of rank 2.
\<close>

theorem attribute_container_type_counterexample:
  "EOPatch_init (no_args(DATA := PDict [(''x'', arr4)]))
     = Inr (empty_patch(DATA := PFeatureDict DATA [(''x'', arr4)]))
   \<and> setattr empty_patch ''scalar'' (PFeatureDict DATA [(''x'', arr4)])
     = Inr (empty_patch(SCALAR := PFeatureDict DATA [(''x'', arr4)]))
   \<and> reachable (empty_patch(SCALAR := PFeatureDict DATA [(''x'', arr4)]))
   \<and> ndim SCALAR = Some 2 \<and> \<not> is_array_of_ndim 2 arr4 \<and> is_array_of_ndim 2 arr2
   \<and> add_feature (empty_patch(SCALAR := PFeatureDict DATA [(''x'', arr4)])) SCALAR ''y'' arr4
     = Inr (empty_patch(SCALAR := PFeatureDict DATA [(''x'', arr4), (''y'', arr4)]))
   \<and> add_feature (empty_patch(SCALAR := PFeatureDict DATA [(''x'', arr4)])) SCALAR ''y'' arr2
     = Inl (ValueError_dimension DATA 4)"
proof -
  have i: "EOPatch_init (no_args(DATA := PDict [(''x'', arr4)]))
     = Inr (empty_patch(DATA := PFeatureDict DATA [(''x'', arr4)]))"
  proof -
    have "(\<lambda>ft. PNone)
      (DATA := PFeatureDict DATA [(''x'', arr4)], MASK := PFeatureDict MASK [],
       SCALAR := PFeatureDict SCALAR [], LABEL := PFeatureDict LABEL [],
       VECTOR := PFeatureDict VECTOR [], DATA_TIMELESS := PFeatureDict DATA_TIMELESS [],
       MASK_TIMELESS := PFeatureDict MASK_TIMELESS [],
       SCALAR_TIMELESS := PFeatureDict SCALAR_TIMELESS [],
       LABEL_TIMELESS := PFeatureDict LABEL_TIMELESS [],
       VECTOR_TIMELESS := PFeatureDict VECTOR_TIMELESS [],
       META_INFO := PFeatureDict META_INFO [], BBOX := PNone, TIMESTAMP := PList []) =
     empty_patch(DATA := PFeatureDict DATA [(''x'', arr4)])"
      (is "?f = ?g")
    proof (rule ext)
      fix ft :: FeatureType
      show "?f ft = ?g ft"
        by (cases ft) (simp_all add: empty_patch_def)
    qed
    then show ?thesis
      by (simp add: EOPatch_init_def feature_types_def no_args_def init_value_def setattr_def
          FeatureType_of_def FeatureDict_init_def FeatureDict_setitem_def dict_setitem_def arr4_def)
  qed
  have s: "setattr empty_patch ''scalar'' (PFeatureDict DATA [(''x'', arr4)])
     = Inr (empty_patch(SCALAR := PFeatureDict DATA [(''x'', arr4)]))"
    by (simp add: setattr_def FeatureType_of_def feature_types_def)
  have r: "reachable (empty_patch(SCALAR := PFeatureDict DATA [(''x'', arr4)]))"
    by (rule reach_setattr[OF reachable_empty_patch s])
  have a: "add_feature (empty_patch(SCALAR := PFeatureDict DATA [(''x'', arr4)])) SCALAR ''y'' arr4
     = Inr (empty_patch(SCALAR := PFeatureDict DATA [(''x'', arr4), (''y'', arr4)]))"
    by (simp add: add_feature_def check_if_dict_def getitem_def FeatureDict_setitem_def
        dict_setitem_def arr4_def)
  have b: "add_feature (empty_patch(SCALAR := PFeatureDict DATA [(''x'', arr4)])) SCALAR ''y'' arr2
     = Inl (ValueError_dimension DATA 4)"
    by (simp add: add_feature_def check_if_dict_def getitem_def FeatureDict_setitem_def
        dict_setitem_def arr2_def)
  show ?thesis using i s r a b by (simp add: arr4_def arr2_def)
qed

text \<open>
  C1, as the code has it. In every patch, the attribute of every namespace other than the
  bounding box is a \<open>_FeatureDict\<close> or a list, never \<open>None\<close>; in a patch constructed
  with no arguments the mappings and the timestamp list are empty. The bounding box is
  assigned as given, so it is \<open>None\<close> in a patch constructed with no arguments.
\<close>

theorem namespace_attribute_not_None:
  assumes "reachable p"
  shows "(ft \<noteq> BBOX \<longrightarrow> getitem p ft \<noteq> PNone)
       \<and> (has_dict ft \<longrightarrow> is_FeatureDict (getitem p ft))
       \<and> (ft = TIMESTAMP \<longrightarrow> isinstance (getitem p ft) TList)
       \<and> (EOPatch_init no_args = Inr p \<longrightarrow>
            getitem p ft =
              (if has_dict ft then PFeatureDict ft [] else if ft = TIMESTAMP then PList [] else PNone))"
proof -
  have ok: "val_ok ft (p ft)"
    by (rule reachable_val_ok[OF assms])
  have "ft \<noteq> BBOX \<longrightarrow> getitem p ft \<noteq> PNone"
    using val_ok_not_None[OF ok] by (simp add: getitem_def)
  moreover have "has_dict ft \<longrightarrow> is_FeatureDict (getitem p ft)"
    using ok by (simp add: val_ok_def getitem_def)
  moreover have "ft = TIMESTAMP \<longrightarrow> isinstance (getitem p ft) TList"
    using ok by (auto simp: val_ok_def getitem_def)
  moreover have "EOPatch_init no_args = Inr p \<longrightarrow>
      getitem p ft =
        (if has_dict ft then PFeatureDict ft [] else if ft = TIMESTAMP then PList [] else PNone)"
    by (auto simp: EOPatch_init_no_args getitem_def empty_patch_def)
  ultimately show ?thesis by blast
qed

theorem namespace_attribute_not_None_witness:
  "reachable (empty_patch :: int list eopatch)
   \<and> EOPatch_init no_args = Inr (empty_patch :: int list eopatch)
   \<and> TIMESTAMP \<noteq> BBOX \<and> has_dict META_INFO
   \<and> getitem (empty_patch :: int list eopatch) TIMESTAMP = PList []
   \<and> getitem (empty_patch :: int list eopatch) TIMESTAMP \<noteq> PNone
   \<and> isinstance (getitem (empty_patch :: int list eopatch) TIMESTAMP) TList
   \<and> getitem (empty_patch :: int list eopatch) META_INFO = PFeatureDict META_INFO []
   \<and> is_FeatureDict (getitem (empty_patch :: int list eopatch) META_INFO)"
proof -
  have r: "reachable (empty_patch :: int list eopatch)"
    by (rule reachable_empty_patch)
  have i: "EOPatch_init no_args = Inr (empty_patch :: int list eopatch)"
    by (rule EOPatch_init_no_args)
  show ?thesis
    using namespace_attribute_not_None [OF r, of TIMESTAMP]
      namespace_attribute_not_None [OF r, of META_INFO] r i
    by simp
qed

text \<open>
  C1 as stated fails for the bounding box: \<open>EOPatch()\<close> succeeds and reading its
  \<open>bbox\<close> attribute yields \<open>None\<close>.
\<close>

theorem namespace_attribute_not_None_counterexample:
  "EOPatch_init no_args = Inr (empty_patch :: int list eopatch)
   \<and> getitem (empty_patch :: int list eopatch) BBOX = PNone"
  by (simp add: EOPatch_init_no_args getitem_def empty_patch_def)


section \<open>The rank check on every write\<close>






section \<open>Dictionaries\<close>


lemma dict_union_Nil [simp]: "dict_union d [] = d"
  by (simp add: dict_union_def)

lemma dict_union_Cons [simp]: "dict_union d ((k, v) # r) = dict_union (dict_setitem d k v) r"
  by (simp add: dict_union_def)




lemma keys_dict_union: "fst ` set (dict_union d1 d2) = fst ` set d1 \<union> fst ` set d2"
proof (induction d2 arbitrary: d1)
  case Nil
  then show ?case by simp
next
  case (Cons kv d2)
  obtain k v where kv: "kv = (k, v)" by (cases kv)
  have "fst ` set (dict_union (dict_setitem d1 k v) d2) = fst ` set (dict_setitem d1 k v) \<union> fst ` set d2"
    by (rule Cons.IH)
  also have "fst ` set (dict_setitem d1 k v) = {k} \<union> fst ` set d1"
    by (simp add: dict_setitem_def dom_update)
  finally show ?case by (auto simp: kv)
qed


section \<open>Filling a validated mapping\<close>






section \<open>Assignment of the attributes\<close>







section \<open>The loop over the shared feature names\<close>







text \<open>Values concatenated.\<close>

lemma has_time_axisE: "has_time_axis v \<Longrightarrow> \<exists>a. v = PArr a \<and> shape a \<noteq> []"
  by (cases v) (auto simp: has_time_axis_def)

lemma astype_same [simp]: "astype t t xs = xs"
  by (simp add: astype_def)

lemma result_type_same [simp]: "result_type t t = t"
  by (simp add: result_type_def)

lemma concatenate_data_arrays:
  "shape a \<noteq> [] \<Longrightarrow> shape b \<noteq> [] \<Longrightarrow>
   concatenate_data (PArr a) (PArr b) =
     (if drop 1 (shape a) \<noteq> drop 1 (shape b) then Inl ValueError_non_temporal_dimensions
      else Inr (PArr (NDArray (result_type (dtype a) (dtype b))
                  ((hd (shape a) + hd (shape b)) # drop 1 (shape a))
                  (astype (dtype a) (result_type (dtype a) (dtype b)) (buf a)
                   @ astype (dtype b) (result_type (dtype a) (dtype b)) (buf b)))))"
  by (auto simp: np_concatenate_def)



lemma merge_common_concat_Inl:
  "merge_common True ft d1 d2 content names = Inl e \<Longrightarrow>
   \<forall>n \<in> set names. \<exists>v1 v2. map_of d1 n = Some v1 \<and> map_of d2 n = Some v2
        \<and> has_time_axis v1 \<and> has_time_axis v2 \<Longrightarrow>
   e = ValueError_non_temporal_dimensions"
proof (induction names arbitrary: content)
  case Nil
  then show ?case by simp
next
  case (Cons a names)
  from Cons.prems(2) obtain v1 v2 where
    l: "map_of d1 a = Some v1" "map_of d2 a = Some v2" "has_time_axis v1" "has_time_axis v2"
    by auto
  show ?case
  proof (cases "concatenate_data v1 v2")
    case (Inl e')
    from l obtain x y where xy: "v1 = PArr x" "shape x \<noteq> []" "v2 = PArr y" "shape y \<noteq> []"
      by (auto dest!: has_time_axisE)
    with Inl concatenate_data_arrays[of x y] have "e' = ValueError_non_temporal_dimensions"
      by (simp del: concatenate_data.simps split: if_splits)
    with Inl Cons.prems(1) l show ?thesis by simp
  next
    case (Inr v)
    with Cons.prems l have "merge_common True ft d1 d2 (dict_setitem content a v) names = Inl e"
      by simp
    with Cons.IH Cons.prems(2) show ?thesis by auto
  qed
qed

lemma merge_common_concat_mismatch:
  "n \<in> set names \<Longrightarrow> map_of d1 n = Some (PArr a) \<Longrightarrow> map_of d2 n = Some (PArr b) \<Longrightarrow>
   drop 1 (shape a) \<noteq> drop 1 (shape b) \<Longrightarrow>
   isl (merge_common True ft d1 d2 content names)"
  by (induction names arbitrary: content) (auto split: option.splits sum.splits)

section \<open>The loop over the feature types\<close>







section \<open>Well-formed patches\<close>








section \<open>The order of the loop over the shared names\<close>

lemma iteration_order_first: "iteration_order first_order"
  by (simp add: iteration_order_def first_order_def)

lemma iteration_order_reverse: "iteration_order reverse_order"
  by (simp add: iteration_order_def reverse_order_def)





section \<open>Merging with matching timestamps\<close>






section \<open>One namespace whose shared features are compared\<close>






section \<open>One namespace whose shared features are concatenated\<close>














section \<open>The merge as a whole\<close>





section \<open>When the merge returns a patch\<close>










section \<open>The first error of a merge\<close>






section \<open>Merging with matching timestamps\<close>





section \<open>Merging along time\<close>





section \<open>Deep equality\<close>





lemma deep_eq_PList_Nil: "deep_eq (PList xs) (PList []) \<longleftrightarrow> xs = []"
  by simp


section \<open>Merging in either order\<close>





















section \<open>Names that differ only in casing\<close>











section \<open>Consolidating timestamps that repeat\<close>

text \<open>
  C8 at a patch whose timestamp list has the same date twice. The patch has the three
  frames 10, 11, 12 under \<open>data['x']\<close> and the dates 1, 1, 2; the keep-list has the date 2
  only. \<open>consolidate_timestamps\<close> returns the set with the date 1, but it has removed only
  the first frame of that date: \<open>index\<close> finds the first position of a date, so the
  second frame stays, with its date, although the date is not in the keep-list. With the
  three different dates 1, 2, 3 and the keep-list 1, 3 the call does what the claim says.
\<close>

theorem consolidate_timestamps_repeated_date:
  "PDate 1 \<notin> set [PDate 2 :: int list pyval]
   \<and> snd (consolidate_timestamps (patch_frames [PDate 1, PDate 1, PDate 2]) [PDate 2])
       = Inr {PDate 1}
   \<and> getitem (fst (consolidate_timestamps (patch_frames [PDate 1, PDate 1, PDate 2]) [PDate 2]))
         TIMESTAMP = PList [PDate 1, PDate 2]
   \<and> getitem (fst (consolidate_timestamps (patch_frames [PDate 1, PDate 1, PDate 2]) [PDate 2]))
         DATA = PFeatureDict DATA [(''x'', PArr (NDArray Int64 [2, 1, 1, 1] [11, 12]))]
   \<and> snd (consolidate_timestamps (patch_frames [PDate 1, PDate 2, PDate 3]) [PDate 1, PDate 3])
       = Inr {PDate 2}
   \<and> getitem (fst (consolidate_timestamps (patch_frames [PDate 1, PDate 2, PDate 3])
         [PDate 1, PDate 3])) TIMESTAMP = PList [PDate 1, PDate 3]
   \<and> getitem (fst (consolidate_timestamps (patch_frames [PDate 1, PDate 2, PDate 3])
         [PDate 1, PDate 3])) DATA
       = PFeatureDict DATA [(''x'', PArr (NDArray Int64 [2, 1, 1, 1] [10, 12]))]"
proof -
  let ?p = "patch_frames [PDate 1, PDate 1, PDate 2]"
  let ?q = "patch_frames [PDate 1, PDate 2, PDate 3]"
  have 1: "PDate 1 \<notin> set [PDate 2 :: int list pyval]" by simp
  have "\<not> isl (snd (consolidate_timestamps ?p [PDate 2]))" by code_simp
  moreover have "projr (snd (consolidate_timestamps ?p [PDate 2])) = {PDate 1}" by code_simp
  ultimately have 2: "snd (consolidate_timestamps ?p [PDate 2]) = Inr {PDate 1}"
    by (cases "snd (consolidate_timestamps ?p [PDate 2])") simp_all
  have 3: "getitem (fst (consolidate_timestamps ?p [PDate 2])) TIMESTAMP = PList [PDate 1, PDate 2]"
    by code_simp
  have 4: "getitem (fst (consolidate_timestamps ?p [PDate 2])) DATA
      = PFeatureDict DATA [(''x'', PArr (NDArray Int64 [2, 1, 1, 1] [11, 12]))]"
    by code_simp
  have "\<not> isl (snd (consolidate_timestamps ?q [PDate 1, PDate 3]))" by code_simp
  moreover have "projr (snd (consolidate_timestamps ?q [PDate 1, PDate 3])) = {PDate 2}" by code_simp
  ultimately have 5: "snd (consolidate_timestamps ?q [PDate 1, PDate 3]) = Inr {PDate 2}"
    by (cases "snd (consolidate_timestamps ?q [PDate 1, PDate 3])") simp_all
  have 6: "getitem (fst (consolidate_timestamps ?q [PDate 1, PDate 3])) TIMESTAMP
      = PList [PDate 1, PDate 3]"
    by code_simp
  have 7: "getitem (fst (consolidate_timestamps ?q [PDate 1, PDate 3])) DATA
      = PFeatureDict DATA [(''x'', PArr (NDArray Int64 [2, 1, 1, 1] [10, 12]))]"
    by code_simp
  from 1 2 3 4 5 6 7 show ?thesis by blast
qed


section \<open>The fetch task on a patch that is there already\<close>

lemma list_ex_zip_neq:
  "length xs = length ys \<Longrightarrow> list_ex (\<lambda>(a, b). a \<noteq> b) (zip xs ys) \<longleftrightarrow> xs \<noteq> ys"
  by (induction xs ys rule: list_induct2) auto

lemma check_timestamp_difference_lists:
  "check_timestamp_difference (Some ts1) ts2
     = (if ts1 = ts2 then None else Some ValueError_different_timestamp)"
  by (cases "length ts1 = length ts2")
    (auto simp: check_timestamp_difference_def list_ex_zip_neq)

text \<open>
  C9, as the code has it. \<open>check_timestamp_difference\<close> raises the \<open>ValueError\<close> for two
  lists exactly when they differ, in length or in an element. But \<open>execute\<close> never calls it
  with two lists: given a patch, it raises unless the time interval is missing, and then
  its variable \<open>timestamp\<close> is \<open>None\<close>. For a task with a pixel size and a patch whose
  timestamp list is not empty, \<open>execute\<close> therefore fails with the \<open>ValueError\<close> for the
  arguments if a bounding box or a time interval is given, and with the \<open>TypeError\<close> of
  \<open>len(None)\<close> otherwise, whatever the collaborators do; it never raises the error for
  differing timestamps and never returns.
\<close>

theorem execute_existing_patch:
  assumes "truthy (getitem p TIMESTAMP)"
  shows "execute (Size x y) c (Some p) bbox time_interval
           = (if truthy bbox \<or> truthy time_interval then Inl ValueError_eopatch_or_bbox
              else Inl TypeError_len_of_None)
       \<and> execute (Size x y) c (Some p) bbox time_interval \<noteq> Inl ValueError_different_timestamp
       \<and> check_timestamp_difference (Some ts1) ts2
           = (if ts1 = ts2 then None else Some ValueError_different_timestamp)"
  using assms
  by (simp add: execute_def check_timestamp_difference_lists)
    (simp add: check_timestamp_difference_def)

theorem execute_existing_patch_witness:
  "truthy (getitem patch_seed TIMESTAMP)
   \<and> execute (Size 1 1) idle_collaborators (Some patch_seed) PNone PNone = Inl TypeError_len_of_None
   \<and> execute (Size 1 1) idle_collaborators (Some patch_seed) PNone (PStr ''2020-01-01'')
       = Inl ValueError_eopatch_or_bbox
   \<and> check_timestamp_difference (Some [PDate 1 :: int list pyval]) [PDate 0]
       = Some ValueError_different_timestamp"
proof -
  have t: "truthy (getitem patch_seed TIMESTAMP)" by code_simp
  note w = execute_existing_patch[OF t, where x = 1 and y = 1 and c = idle_collaborators and bbox = PNone
      and ?ts1.0 = "[PDate 1 :: int list pyval]" and ?ts2.0 = "[PDate 0]"]
  from w[where time_interval = PNone]
  have 1: "execute (Size 1 1) idle_collaborators (Some patch_seed) PNone PNone = Inl TypeError_len_of_None"
    by simp
  from w[where time_interval = "PStr ''2020-01-01''"]
  have 2: "execute (Size 1 1) idle_collaborators (Some patch_seed) PNone (PStr ''2020-01-01'')
      = Inl ValueError_eopatch_or_bbox"
    by simp
  from w[where time_interval = PNone]
  have 3: "check_timestamp_difference (Some [PDate 1 :: int list pyval]) [PDate 0]
      = Some ValueError_different_timestamp"
    by simp
  from t 1 2 3 show ?thesis by blast
qed

end
